theory Spec2Isabelle
  imports Main
begin

section \<open>Values, trackers, events and log records\<close>

text \<open>
  The actions of \<^verbatim>\<open>actions/actions.py\<close> read slots and the latest message from a
  tracker, write to the module's logger and return a list of events. Slot values are
  untyped in Python; the values that the actions can meet are modelled by \<open>pyval\<close>
  (\<^verbatim>\<open>None\<close>, booleans, integers, strings). Floating point values are left out.
\<close>

datatype pyval = PNone | PBool bool | PInt int | PStr string

datatype py_error = TypeError

text \<open>Python's truth value of an object, as used by \<^verbatim>\<open>x or y\<close> and \<^verbatim>\<open>if x:\<close>.\<close>

fun truthy :: "pyval \<Rightarrow> bool" where
  "truthy PNone = False"
| "truthy (PBool b) = b"
| "truthy (PInt i) = (i \<noteq> 0)"
| "truthy (PStr s) = (s \<noteq> [])"

definition py_or :: "pyval \<Rightarrow> pyval \<Rightarrow> pyval" where
  "py_or a b = (if truthy a then a else b)"

text \<open>
  \<^verbatim>\<open>x + n\<close> for an integer literal \<open>n\<close>: integers add, a boolean counts as 0 or 1,
  \<^verbatim>\<open>None\<close> and strings raise \<^verbatim>\<open>TypeError\<close>.
\<close>

fun py_add_int :: "pyval \<Rightarrow> int \<Rightarrow> py_error + int" where
  "py_add_int (PInt i) n = Inr (i + n)"
| "py_add_int (PBool b) n = Inr ((if b then 1 else 0) + n)"
| "py_add_int PNone n = Inl TypeError"
| "py_add_int (PStr s) n = Inl TypeError"

text \<open>\<^verbatim>\<open>x > n\<close> for an integer literal \<open>n\<close>, with the same typing.\<close>

fun py_gt_int :: "pyval \<Rightarrow> int \<Rightarrow> py_error + bool" where
  "py_gt_int (PInt i) n = Inr (i > n)"
| "py_gt_int (PBool b) n = Inr ((if b then 1 else 0) > n)"
| "py_gt_int PNone n = Inl TypeError"
| "py_gt_int (PStr s) n = Inl TypeError"

text \<open>
  The latest message is a dictionary with the optional keys \<^verbatim>\<open>text\<close> and
  \<^verbatim>\<open>intent\<close>; \<open>None\<close> stands for a missing key. The intent, when present, is
  itself a dictionary, as the dialogue host sends it. An \<^verbatim>\<open>intent\<close> entry that is
  not a dictionary, on which \<^verbatim>\<open>.get('name', ...)\<close> raises \<^verbatim>\<open>AttributeError\<close>,
  is not a value of this type: the statements below are about messages of this shape.
\<close>

record message =
  msg_text :: "pyval option"
  msg_intent :: "(string \<rightharpoonup> pyval) option"

record tracker =
  sender_id :: string
  slots :: "string \<rightharpoonup> pyval"
  latest_message :: message

text \<open>The domain dictionary; only its \<^verbatim>\<open>session_config\<close> entry is read.\<close>

record domain =
  session_config :: "(string \<rightharpoonup> pyval) option"

text \<open>\<^verbatim>\<open>Tracker.get_slot\<close> of the SDK: the slot's value, \<^verbatim>\<open>None\<close> for an unknown slot.\<close>

definition get_slot :: "tracker \<Rightarrow> string \<Rightarrow> pyval" where
  "get_slot tr key = (case slots tr key of None \<Rightarrow> PNone | Some v \<Rightarrow> v)"

text \<open>\<^verbatim>\<open>tracker.latest_message.get('intent', {}).get('name', default)\<close>\<close>

definition intent_name :: "tracker \<Rightarrow> pyval \<Rightarrow> pyval" where
  "intent_name tr dflt =
     (case msg_intent (latest_message tr) of
        None \<Rightarrow> dflt
      | Some d \<Rightarrow> (case d ''name'' of None \<Rightarrow> dflt | Some v \<Rightarrow> v))"

text \<open>\<^verbatim>\<open>tracker.latest_message.get('text', '')\<close>\<close>

definition message_text :: "tracker \<Rightarrow> pyval" where
  "message_text tr =
     (case msg_text (latest_message tr) of None \<Rightarrow> PStr [] | Some v \<Rightarrow> v)"

datatype event = SlotSet string pyval | SessionStarted | ActionExecuted string

text \<open>
  A log record is the level of the logger call and the message; a message is kept as
  its template together with the values that the f-string interpolates.
\<close>

datatype log_level = INFO | WARNING | ERROR

datatype log_message =
    ViolationLogged "(string \<times> pyval) list"
  | ViolationCountIncreased pyval int pyval
  | FinalWarning string
  | TerminatingSession string
  | SevereViolationEscalated "(string \<times> pyval) list"
  | ResettingViolationCount string pyval
  | NewSessionStarted string

type_synonym log_record = "log_level \<times> log_message"

text \<open>
  What a call of \<^verbatim>\<open>run\<close> does: the records logged, in order, and either the
  exception raised or the events returned.
\<close>

type_synonym outcome = "log_record list \<times> (py_error + event list)"

section \<open>The actions\<close>

subsection \<open>\<^verbatim>\<open>ActionLogViolation\<close>\<close>

definition categorize_violation :: "pyval \<Rightarrow> string" where
  "categorize_violation intent =
     (let severe_violations =
            [PStr ''prompt_injection'', PStr ''out_of_scope_technical'',
             PStr ''share_sensitive_data''];
          moderate_violations =
            [PStr ''offensive_language'', PStr ''harassment'', PStr ''sara_topic'']
      in if intent \<in> set severe_violations then ''SEVERE''
         else if intent \<in> set moderate_violations then ''MODERATE''
         else ''MINOR'')"

text \<open>The argument \<open>now\<close> is the value of \<^verbatim>\<open>datetime.now().isoformat()\<close>.\<close>

definition ActionLogViolation_run :: "string \<Rightarrow> tracker \<Rightarrow> domain \<Rightarrow> outcome" where
  "ActionLogViolation_run now tr dmn =
     (let intent = intent_name tr (PStr ''unknown'');
          user_message = message_text tr;
          user_id = sender_id tr;
          timestamp = now;
          violation_log =
            [(''timestamp'', PStr timestamp),
             (''user_id'', PStr user_id),
             (''intent'', intent),
             (''message'', user_message),
             (''violation_type'', PStr (categorize_violation intent))]
      in ([(WARNING, ViolationLogged violation_log)],
          Inr [SlotSet ''last_violation_type'' intent]))"

subsection \<open>\<^verbatim>\<open>ActionHandleViolation\<close>\<close>

definition ActionHandleViolation_run :: "tracker \<Rightarrow> domain \<Rightarrow> outcome" where
  "ActionHandleViolation_run tr dmn =
     (let current_count = py_or (get_slot tr ''violation_count'') (PInt 0)
      in case py_add_int current_count 1 of
           Inl e \<Rightarrow> ([], Inl e)
         | Inr new_count \<Rightarrow>
             (let intent = intent_name tr (PStr []);
                  log1 = [(INFO, ViolationCountIncreased current_count new_count intent)];
                  events = [SlotSet ''violation_count'' (PInt new_count)];
                  log2 =
                    (if new_count = 2 then [(WARNING, FinalWarning (sender_id tr))]
                     else if new_count \<ge> 3 then [(ERROR, TerminatingSession (sender_id tr))]
                     else [])
              in (log1 @ log2, Inr events)))"

subsection \<open>\<^verbatim>\<open>ActionEscalateViolation\<close>\<close>

definition ActionEscalateViolation_run :: "string \<Rightarrow> tracker \<Rightarrow> domain \<Rightarrow> outcome" where
  "ActionEscalateViolation_run now tr dmn =
     (let intent = intent_name tr (PStr []);
          user_message = message_text tr;
          user_id = sender_id tr;
          timestamp = now;
          severe_violation =
            [(''timestamp'', PStr timestamp),
             (''user_id'', PStr user_id),
             (''intent'', intent),
             (''message'', user_message),
             (''severity'', PStr ''CRITICAL'')];
          log1 = [(ERROR, SevereViolationEscalated severe_violation)];
          current_count = py_or (get_slot tr ''violation_count'') (PInt 0)
      in case py_add_int current_count 2 of
           Inl e \<Rightarrow> (log1, Inl e)
         | Inr new_count \<Rightarrow>
             (log1,
              Inr [SlotSet ''violation_count'' (PInt new_count),
                   SlotSet ''last_violation_type'' intent]))"

subsection \<open>\<^verbatim>\<open>ActionResetViolationCount\<close>\<close>

definition ActionResetViolationCount_run :: "tracker \<Rightarrow> domain \<Rightarrow> outcome" where
  "ActionResetViolationCount_run tr dmn =
     (let user_id = sender_id tr;
          previous_count = py_or (get_slot tr ''violation_count'') (PInt 0)
      in case py_gt_int previous_count 0 of
           Inl e \<Rightarrow> ([], Inl e)
         | Inr positive \<Rightarrow>
             ((if positive then [(INFO, ResettingViolationCount user_id previous_count)]
               else []),
              Inr [SlotSet ''violation_count'' (PInt 0),
                   SlotSet ''last_violation_type'' PNone]))"

subsection \<open>\<^verbatim>\<open>ActionSessionStart\<close>\<close>

definition ActionSessionStart_run :: "tracker \<Rightarrow> domain \<Rightarrow> outcome" where
  "ActionSessionStart_run tr dmn =
     (let events0 = [SessionStarted];
          session_cfg = (case session_config dmn of None \<Rightarrow> Map.empty | Some c \<Rightarrow> c);
          carry_over =
            (case session_cfg ''carry_over_slots_to_new_session'' of
               None \<Rightarrow> PBool True
             | Some v \<Rightarrow> v);
          events1 =
            (if truthy carry_over then
               (let preserved_slots =
                      [(''user_name'', get_slot tr ''user_name''),
                       (''user_segment'', get_slot tr ''user_segment'')]
                in events0 @
                   map (\<lambda>(key, v). SlotSet key v)
                     (filter (\<lambda>(key, v). v \<noteq> PNone) preserved_slots))
             else
               events0 @ [SlotSet ''violation_count'' (PInt 0)]
                       @ [SlotSet ''last_violation_type'' PNone]);
          events2 = events1 @ [ActionExecuted ''action_listen'']
      in ([(INFO, NewSessionStarted (sender_id tr))], Inr events2))"

section \<open>Applying the returned events\<close>

text \<open>
  A \<open>SlotSet\<close> event writes its slot; the slot updates of a returned event list are
  applied in order. The other events carry no slot update.
\<close>

fun apply_event :: "event \<Rightarrow> (string \<rightharpoonup> pyval) \<Rightarrow> (string \<rightharpoonup> pyval)" where
  "apply_event (SlotSet key v) s = s(key \<mapsto> v)"
| "apply_event SessionStarted s = s"
| "apply_event (ActionExecuted a) s = s"

definition apply_events :: "event list \<Rightarrow> tracker \<Rightarrow> tracker" where
  "apply_events evs tr = tr\<lparr>slots := fold apply_event evs (slots tr)\<rparr>"

text \<open>The tracker after an action: unchanged when the action raised.\<close>

definition tracker_after :: "tracker \<Rightarrow> outcome \<Rightarrow> tracker" where
  "tracker_after tr out =
     (case snd out of Inl e \<Rightarrow> tr | Inr evs \<Rightarrow> apply_events evs tr)"

section \<open>Predicates used in the statements\<close>

text \<open>
  The prior violation count of a tracker is \<open>c\<close>: the slot holds the non-negative
  integer \<open>c\<close>, or the slot is unknown or \<^verbatim>\<open>None\<close> and \<open>c\<close> is 0.
\<close>

definition prior_count :: "tracker \<Rightarrow> int \<Rightarrow> bool" where
  "prior_count tr c \<longleftrightarrow>
     (get_slot tr ''violation_count'' = PInt c \<and> 0 \<le> c)
     \<or> (get_slot tr ''violation_count'' = PNone \<and> c = 0)"

fun is_final_warning :: "log_record \<Rightarrow> bool" where
  "is_final_warning (WARNING, FinalWarning u) = True"
| "is_final_warning r = False"

fun is_termination :: "log_record \<Rightarrow> bool" where
  "is_termination (ERROR, TerminatingSession u) = True"
| "is_termination r = False"

definition warning_signal :: "outcome \<Rightarrow> bool" where
  "warning_signal out = list_ex is_final_warning (fst out)"

definition terminate_signal :: "outcome \<Rightarrow> bool" where
  "terminate_signal out = list_ex is_termination (fst out)"

definition events_of :: "outcome \<Rightarrow> event list" where
  "events_of out = (case snd out of Inl e \<Rightarrow> [] | Inr evs \<Rightarrow> evs)"

fun sets_slot :: "string \<Rightarrow> event \<Rightarrow> bool" where
  "sets_slot key (SlotSet k v) = (k = key)"
| "sets_slot key SessionStarted = False"
| "sets_slot key (ActionExecuted a) = False"

definition updates_slot :: "string \<Rightarrow> outcome \<Rightarrow> bool" where
  "updates_slot key out = list_ex (sets_slot key) (events_of out)"

fun is_critical_record :: "log_record \<Rightarrow> bool" where
  "is_critical_record (ERROR, SevereViolationEscalated d) =
     (map_of d ''severity'' = Some (PStr ''CRITICAL''))"
| "is_critical_record r = False"

fun nonneg_int :: "pyval \<Rightarrow> bool" where
  "nonneg_int (PInt n) = (0 \<le> n)"
| "nonneg_int v = False"

definition carry_over_enabled :: "domain \<Rightarrow> bool" where
  "carry_over_enabled dmn =
     (case session_config dmn of
        None \<Rightarrow> True
      | Some cfg \<Rightarrow>
          (case cfg ''carry_over_slots_to_new_session'' of
             None \<Rightarrow> True
           | Some v \<Rightarrow> v = PBool True))"

text \<open>
  The carry-over flag that \<^verbatim>\<open>ActionSessionStart.run\<close> reads from the domain
  (the two \<^verbatim>\<open>.get\<close> calls with their defaults).
\<close>

definition carry_over_flag :: "domain \<Rightarrow> pyval" where
  "carry_over_flag dmn =
     (let session_cfg = (case session_config dmn of None \<Rightarrow> Map.empty | Some c \<Rightarrow> c)
      in case session_cfg ''carry_over_slots_to_new_session'' of
           None \<Rightarrow> PBool True
         | Some v \<Rightarrow> v)"

fun count_write_ok :: "event \<Rightarrow> bool" where
  "count_write_ok (SlotSet key v) = (if key = ''violation_count'' then nonneg_int v else True)"
| "count_write_ok SessionStarted = True"
| "count_write_ok (ActionExecuted a) = True"

section \<open>Example inputs\<close>

definition msg_of :: "string \<Rightarrow> string \<Rightarrow> message" where
  "msg_of txt name =
     \<lparr>msg_text = Some (PStr txt), msg_intent = Some [''name'' \<mapsto> PStr name]\<rparr>"

definition tracker_of :: "(string \<rightharpoonup> pyval) \<Rightarrow> string \<Rightarrow> tracker" where
  "tracker_of sl name =
     \<lparr>sender_id = ''u1'', slots = sl, latest_message = msg_of ''hello'' name\<rparr>"

definition tracker_msg :: "message \<Rightarrow> tracker" where
  "tracker_msg m = \<lparr>sender_id = ''u1'', slots = Map.empty, latest_message = m\<rparr>"

definition domain_default :: domain where
  "domain_default = \<lparr>session_config = None\<rparr>"

definition domain_carry :: "bool \<Rightarrow> domain" where
  "domain_carry b =
     \<lparr>session_config = Some [''carry_over_slots_to_new_session'' \<mapsto> PBool b]\<rparr>"

section \<open>Reading the counter and the updated slots\<close>

lemma prior_count_read:
  "prior_count tr c \<Longrightarrow> py_or (get_slot tr ''violation_count'') (PInt 0) = PInt c"
  by (auto simp: prior_count_def py_or_def)

lemma get_slot_apply_events:
  "get_slot (apply_events evs tr) key =
     (case fold apply_event evs (slots tr) key of None \<Rightarrow> PNone | Some v \<Rightarrow> v)"
  by (simp add: get_slot_def apply_events_def)

lemma reset_events:
  assumes "get_slot tr ''violation_count'' = PNone \<or> get_slot tr ''violation_count'' = PInt c"
  shows "snd (ActionResetViolationCount_run tr dmn)
           = Inr [SlotSet ''violation_count'' (PInt 0), SlotSet ''last_violation_type'' PNone]"
  using assms by (auto simp: ActionResetViolationCount_run_def py_or_def Let_def)

section \<open>The standard violation path\<close>

text \<open>
  C1. With prior count \<open>c \<ge> 0\<close> (an unknown or \<^verbatim>\<open>None\<close> slot counting as 0),
  \<^verbatim>\<open>ActionHandleViolation.run\<close> sets the count to \<open>c + 1\<close>; the final-warning record is
  logged exactly when \<open>c + 1 = 2\<close>, the termination record exactly when \<open>c + 1 \<ge> 3\<close>,
  and neither of them when \<open>c + 1\<close> is 0 or 1.
\<close>

theorem handle_violation_escalation:
  assumes "prior_count tr c"
  shows "snd (ActionHandleViolation_run tr dmn) = Inr [SlotSet ''violation_count'' (PInt (c + 1))]
     \<and> (warning_signal (ActionHandleViolation_run tr dmn) \<longleftrightarrow> c + 1 = 2)
     \<and> (terminate_signal (ActionHandleViolation_run tr dmn) \<longleftrightarrow> c + 1 \<ge> 3)
     \<and> (c + 1 = 0 \<or> c + 1 = 1 \<longrightarrow>
           \<not> warning_signal (ActionHandleViolation_run tr dmn)
           \<and> \<not> terminate_signal (ActionHandleViolation_run tr dmn))"
  using prior_count_read [OF assms]
  by (simp add: ActionHandleViolation_run_def warning_signal_def terminate_signal_def Let_def)

theorem handle_violation_escalation_witness:
  "prior_count (tracker_of [''violation_count'' \<mapsto> PInt 1] ''harassment'') 1
   \<and> warning_signal
        (ActionHandleViolation_run (tracker_of [''violation_count'' \<mapsto> PInt 1] ''harassment'')
           domain_default)
   \<and> \<not> terminate_signal
        (ActionHandleViolation_run (tracker_of [''violation_count'' \<mapsto> PInt 1] ''harassment'')
           domain_default)"
  using handle_violation_escalation
          [of "tracker_of [''violation_count'' \<mapsto> PInt 1] ''harassment''" 1 domain_default]
  by (simp add: prior_count_def get_slot_def tracker_of_def)

text \<open>
  C2. With prior count \<open>c \<ge> 0\<close> (an unknown or \<^verbatim>\<open>None\<close> slot counting as 0),
  \<^verbatim>\<open>ActionHandleViolation.run\<close> raises nothing and returns the single slot update of
  \<^verbatim>\<open>violation_count\<close> to \<open>c + 1\<close>, whatever the intent of the latest message is.
\<close>

theorem handle_violation_increment:
  assumes "prior_count tr c"
  shows "snd (ActionHandleViolation_run tr dmn) = Inr [SlotSet ''violation_count'' (PInt (c + 1))]
     \<and> get_slot (tracker_after tr (ActionHandleViolation_run tr dmn)) ''violation_count''
         = PInt (c + 1)"
  using prior_count_read [OF assms]
  by (simp add: ActionHandleViolation_run_def Let_def tracker_after_def get_slot_apply_events)

theorem handle_violation_increment_witness:
  "prior_count (tracker_of Map.empty []) 0
   \<and> snd (ActionHandleViolation_run (tracker_of Map.empty []) domain_default)
       = Inr [SlotSet ''violation_count'' (PInt 1)]"
  using handle_violation_increment [of "tracker_of Map.empty []" 0 domain_default]
  by (simp add: prior_count_def get_slot_def tracker_of_def)

section \<open>The severe path\<close>

text \<open>
  C3. With prior count \<open>c \<ge> 0\<close> (an unknown or \<^verbatim>\<open>None\<close> slot counting as 0),
  \<^verbatim>\<open>ActionEscalateViolation.run\<close> sets \<^verbatim>\<open>violation_count\<close> to \<open>c + 2\<close> and
  \<^verbatim>\<open>last_violation_type\<close> to the intent of the latest message, and logs a record whose
  severity is CRITICAL; from count 0 the count becomes 2.
\<close>

theorem escalate_violation_effect:
  assumes "prior_count tr c"
  shows "snd (ActionEscalateViolation_run now tr dmn)
           = Inr [SlotSet ''violation_count'' (PInt (c + 2)),
                  SlotSet ''last_violation_type'' (intent_name tr (PStr []))]
     \<and> get_slot (tracker_after tr (ActionEscalateViolation_run now tr dmn)) ''violation_count''
         = PInt (c + 2)
     \<and> get_slot (tracker_after tr (ActionEscalateViolation_run now tr dmn)) ''last_violation_type''
         = intent_name tr (PStr [])
     \<and> list_ex is_critical_record (fst (ActionEscalateViolation_run now tr dmn))
     \<and> (c = 0 \<longrightarrow>
          get_slot (tracker_after tr (ActionEscalateViolation_run now tr dmn)) ''violation_count''
            = PInt 2)"
  using prior_count_read [OF assms]
  by (simp add: ActionEscalateViolation_run_def Let_def tracker_after_def get_slot_apply_events)

theorem escalate_violation_effect_witness:
  "prior_count (tracker_of Map.empty ''prompt_injection'') 0
   \<and> snd (ActionEscalateViolation_run ''2024-01-01T00:00:00''
            (tracker_of Map.empty ''prompt_injection'') domain_default)
       = Inr [SlotSet ''violation_count'' (PInt 2),
              SlotSet ''last_violation_type'' (PStr ''prompt_injection'')]"
  using escalate_violation_effect
          [of "tracker_of Map.empty ''prompt_injection''" 0 "''2024-01-01T00:00:00''" domain_default]
  by (simp add: prior_count_def get_slot_def tracker_of_def intent_name_def msg_of_def)

section \<open>Reset and session start\<close>

text \<open>
  C6. Whatever the prior count is (an integer, or an unknown or \<^verbatim>\<open>None\<close> slot),
  \<^verbatim>\<open>ActionResetViolationCount.run\<close> sets \<^verbatim>\<open>violation_count\<close> to 0 and
  \<^verbatim>\<open>last_violation_type\<close> to \<^verbatim>\<open>None\<close>; running it again on the updated tracker
  returns the same events and leaves the tracker as it is.
\<close>

theorem reset_violation_count_idempotent:
  assumes "get_slot tr ''violation_count'' = PNone \<or> get_slot tr ''violation_count'' = PInt c"
  shows "snd (ActionResetViolationCount_run tr dmn)
           = Inr [SlotSet ''violation_count'' (PInt 0), SlotSet ''last_violation_type'' PNone]
     \<and> get_slot (tracker_after tr (ActionResetViolationCount_run tr dmn)) ''violation_count''
         = PInt 0
     \<and> get_slot (tracker_after tr (ActionResetViolationCount_run tr dmn)) ''last_violation_type''
         = PNone
     \<and> snd (ActionResetViolationCount_run
              (tracker_after tr (ActionResetViolationCount_run tr dmn)) dmn)
         = snd (ActionResetViolationCount_run tr dmn)
     \<and> tracker_after (tracker_after tr (ActionResetViolationCount_run tr dmn))
          (ActionResetViolationCount_run
             (tracker_after tr (ActionResetViolationCount_run tr dmn)) dmn)
         = tracker_after tr (ActionResetViolationCount_run tr dmn)"
proof -
  let ?evs = "[SlotSet ''violation_count'' (PInt 0), SlotSet ''last_violation_type'' PNone]"
  let ?tr' = "tracker_after tr (ActionResetViolationCount_run tr dmn)"
  have first: "snd (ActionResetViolationCount_run tr dmn) = Inr ?evs"
    by (rule reset_events [OF assms])
  then have tr': "?tr' = apply_events ?evs tr"
    by (simp add: tracker_after_def)
  have cnt: "get_slot ?tr' ''violation_count'' = PInt 0"
    by (simp add: tr' get_slot_apply_events)
  have lvt: "get_slot ?tr' ''last_violation_type'' = PNone"
    by (simp add: tr' get_slot_apply_events)
  have second: "snd (ActionResetViolationCount_run ?tr' dmn) = Inr ?evs"
    by (rule reset_events [of ?tr' 0]) (simp add: cnt)
  have "apply_events ?evs (apply_events ?evs tr) = apply_events ?evs tr"
    by (simp add: apply_events_def fun_upd_twist)
  then have again: "tracker_after ?tr' (ActionResetViolationCount_run ?tr' dmn) = ?tr'"
    using second tr' by (simp add: tracker_after_def)
  show ?thesis using first cnt lvt second again by simp
qed

theorem reset_violation_count_idempotent_witness:
  "get_slot (tracker_of [''violation_count'' \<mapsto> PInt 5] ''thanks'') ''violation_count'' = PInt 5
   \<and> get_slot
        (tracker_after (tracker_of [''violation_count'' \<mapsto> PInt 5] ''thanks'')
           (ActionResetViolationCount_run
              (tracker_of [''violation_count'' \<mapsto> PInt 5] ''thanks'') domain_default))
        ''violation_count'' = PInt 0"
  using reset_violation_count_idempotent
          [of "tracker_of [''violation_count'' \<mapsto> PInt 5] ''thanks''" 5 domain_default]
  by (simp add: get_slot_def tracker_of_def)

text \<open>
  C7. When the session configuration sets \<^verbatim>\<open>carry_over_slots_to_new_session\<close> to
  \<^verbatim>\<open>False\<close>, \<^verbatim>\<open>ActionSessionStart.run\<close> sets \<^verbatim>\<open>violation_count\<close> to 0 and
  \<^verbatim>\<open>last_violation_type\<close> to \<^verbatim>\<open>None\<close>, whatever the tracker held before.
\<close>

theorem session_start_no_carry_over:
  assumes "session_config dmn = Some cfg"
      and "cfg ''carry_over_slots_to_new_session'' = Some (PBool False)"
  shows "snd (ActionSessionStart_run tr dmn)
           = Inr [SessionStarted, SlotSet ''violation_count'' (PInt 0),
                  SlotSet ''last_violation_type'' PNone, ActionExecuted ''action_listen'']
     \<and> get_slot (tracker_after tr (ActionSessionStart_run tr dmn)) ''violation_count'' = PInt 0
     \<and> get_slot (tracker_after tr (ActionSessionStart_run tr dmn)) ''last_violation_type''
         = PNone"
  using assms
  by (simp add: ActionSessionStart_run_def Let_def tracker_after_def get_slot_apply_events)

theorem session_start_no_carry_over_witness:
  "session_config (domain_carry False)
     = Some [''carry_over_slots_to_new_session'' \<mapsto> PBool False]
   \<and> get_slot
        (tracker_after
           (tracker_of [''violation_count'' \<mapsto> PInt 4,
                        ''last_violation_type'' \<mapsto> PStr ''harassment''] ''greet'')
           (ActionSessionStart_run
              (tracker_of [''violation_count'' \<mapsto> PInt 4,
                           ''last_violation_type'' \<mapsto> PStr ''harassment''] ''greet'')
              (domain_carry False)))
        ''violation_count'' = PInt 0"
  using session_start_no_carry_over
          [of "domain_carry False" "[''carry_over_slots_to_new_session'' \<mapsto> PBool False]"
              "tracker_of [''violation_count'' \<mapsto> PInt 4,
                           ''last_violation_type'' \<mapsto> PStr ''harassment''] ''greet''"]
  by (simp add: domain_carry_def)

text \<open>
  C8. When carrying over is enabled (the flag is \<^verbatim>\<open>True\<close>, or the key or the whole
  session configuration is missing), \<^verbatim>\<open>ActionSessionStart.run\<close> emits an update of
  \<^verbatim>\<open>user_name\<close> and of \<^verbatim>\<open>user_segment\<close> exactly when the slot is not
  \<^verbatim>\<open>None\<close>, and no update of \<^verbatim>\<open>violation_count\<close> or \<^verbatim>\<open>last_violation_type\<close>,
  which keep their values.
\<close>

theorem session_start_carry_over:
  assumes "carry_over_enabled dmn"
  shows "snd (ActionSessionStart_run tr dmn)
           = Inr ([SessionStarted]
                  @ (if get_slot tr ''user_name'' = PNone then []
                     else [SlotSet ''user_name'' (get_slot tr ''user_name'')])
                  @ (if get_slot tr ''user_segment'' = PNone then []
                     else [SlotSet ''user_segment'' (get_slot tr ''user_segment'')])
                  @ [ActionExecuted ''action_listen''])
     \<and> (updates_slot ''user_name'' (ActionSessionStart_run tr dmn)
          \<longleftrightarrow> get_slot tr ''user_name'' \<noteq> PNone)
     \<and> (updates_slot ''user_segment'' (ActionSessionStart_run tr dmn)
          \<longleftrightarrow> get_slot tr ''user_segment'' \<noteq> PNone)
     \<and> \<not> updates_slot ''violation_count'' (ActionSessionStart_run tr dmn)
     \<and> \<not> updates_slot ''last_violation_type'' (ActionSessionStart_run tr dmn)
     \<and> get_slot (tracker_after tr (ActionSessionStart_run tr dmn)) ''violation_count''
         = get_slot tr ''violation_count''
     \<and> get_slot (tracker_after tr (ActionSessionStart_run tr dmn)) ''last_violation_type''
         = get_slot tr ''last_violation_type''"
proof -
  have evs: "snd (ActionSessionStart_run tr dmn)
           = Inr ([SessionStarted]
                  @ (if get_slot tr ''user_name'' = PNone then []
                     else [SlotSet ''user_name'' (get_slot tr ''user_name'')])
                  @ (if get_slot tr ''user_segment'' = PNone then []
                     else [SlotSet ''user_segment'' (get_slot tr ''user_segment'')])
                  @ [ActionExecuted ''action_listen''])"
    using assms
    by (auto simp: carry_over_enabled_def ActionSessionStart_run_def Let_def
             split: option.splits)
  show ?thesis
    unfolding evs updates_slot_def events_of_def tracker_after_def
    by (simp add: get_slot_apply_events) (simp add: get_slot_def)
qed

theorem session_start_carry_over_witness:
  "carry_over_enabled domain_default
   \<and> snd (ActionSessionStart_run (tracker_of [''user_name'' \<mapsto> PStr ''Ana''] ''greet'')
            domain_default)
       = Inr [SessionStarted, SlotSet ''user_name'' (PStr ''Ana''),
              ActionExecuted ''action_listen'']"
  using session_start_carry_over
          [of domain_default "tracker_of [''user_name'' \<mapsto> PStr ''Ana''] ''greet''"]
  by (simp add: carry_over_enabled_def domain_default_def get_slot_def tracker_of_def)

section \<open>The last violation type\<close>

text \<open>
  C4. With prior count \<open>c \<ge> 0\<close>, \<^verbatim>\<open>ActionEscalateViolation.run\<close> sets
  \<^verbatim>\<open>last_violation_type\<close> to the intent of the latest message and
  \<^verbatim>\<open>ActionResetViolationCount.run\<close> sets it to \<^verbatim>\<open>None\<close>;
  \<^verbatim>\<open>ActionHandleViolation.run\<close> returns the update of \<^verbatim>\<open>violation_count\<close> only and
  leaves \<^verbatim>\<open>last_violation_type\<close> as it was.
\<close>

theorem last_violation_type_updates:
  assumes "prior_count tr c"
  shows "get_slot (tracker_after tr (ActionEscalateViolation_run now tr dmn))
           ''last_violation_type'' = intent_name tr (PStr [])
     \<and> get_slot (tracker_after tr (ActionResetViolationCount_run tr dmn))
           ''last_violation_type'' = PNone
     \<and> snd (ActionHandleViolation_run tr dmn)
           = Inr [SlotSet ''violation_count'' (PInt (c + 1))]
     \<and> \<not> updates_slot ''last_violation_type'' (ActionHandleViolation_run tr dmn)
     \<and> get_slot (tracker_after tr (ActionHandleViolation_run tr dmn))
           ''last_violation_type'' = get_slot tr ''last_violation_type''"
proof -
  have rd: "py_or (get_slot tr ''violation_count'') (PInt 0) = PInt c"
    by (rule prior_count_read [OF assms])
  have esc: "get_slot (tracker_after tr (ActionEscalateViolation_run now tr dmn))
           ''last_violation_type'' = intent_name tr (PStr [])"
    using rd
    by (simp add: ActionEscalateViolation_run_def Let_def tracker_after_def
          get_slot_apply_events)
  have "get_slot tr ''violation_count'' = PNone \<or> get_slot tr ''violation_count'' = PInt c"
    using assms by (auto simp: prior_count_def)
  then have rst: "get_slot (tracker_after tr (ActionResetViolationCount_run tr dmn))
           ''last_violation_type'' = PNone"
    by (simp add: reset_events tracker_after_def get_slot_apply_events)
  have hdl: "snd (ActionHandleViolation_run tr dmn)
           = Inr [SlotSet ''violation_count'' (PInt (c + 1))]"
    using rd by (simp add: ActionHandleViolation_run_def Let_def)
  have keep: "get_slot (tracker_after tr (ActionHandleViolation_run tr dmn))
           ''last_violation_type'' = get_slot tr ''last_violation_type''"
    by (simp add: hdl tracker_after_def get_slot_apply_events) (simp add: get_slot_def)
  show ?thesis
    using esc rst hdl keep by (simp add: updates_slot_def events_of_def)
qed

theorem last_violation_type_updates_witness:
  "prior_count (tracker_of [''violation_count'' \<mapsto> PInt 1] ''prompt_injection'') 1
   \<and> get_slot
        (tracker_after (tracker_of [''violation_count'' \<mapsto> PInt 1] ''prompt_injection'')
           (ActionEscalateViolation_run ''2024-01-01T00:00:00''
              (tracker_of [''violation_count'' \<mapsto> PInt 1] ''prompt_injection'')
              domain_default))
        ''last_violation_type'' = PStr ''prompt_injection''"
  using last_violation_type_updates
          [of "tracker_of [''violation_count'' \<mapsto> PInt 1] ''prompt_injection''" 1
              "''2024-01-01T00:00:00''" domain_default]
  by (simp add: prior_count_def get_slot_def tracker_of_def intent_name_def msg_of_def)

text \<open>
  On a tracker without slots whose latest intent is harassment, the standard path
  returns the count update alone, and \<^verbatim>\<open>last_violation_type\<close> is still unset afterwards.
\<close>

theorem handle_violation_keeps_last_type_counterexample:
  "intent_name (tracker_of Map.empty ''harassment'') (PStr []) = PStr ''harassment''
   \<and> snd (ActionHandleViolation_run (tracker_of Map.empty ''harassment'') domain_default)
       = Inr [SlotSet ''violation_count'' (PInt 1)]
   \<and> get_slot
        (tracker_after (tracker_of Map.empty ''harassment'')
           (ActionHandleViolation_run (tracker_of Map.empty ''harassment'') domain_default))
        ''last_violation_type'' \<noteq> PStr ''harassment''"
  by (simp add: ActionHandleViolation_run_def Let_def tracker_after_def apply_events_def
        py_or_def get_slot_def tracker_of_def intent_name_def msg_of_def)

section \<open>The audit log action\<close>

text \<open>
  C9. On a latest message whose intent entry is a dictionary or is missing,
  \<^verbatim>\<open>ActionLogViolation.run\<close> raises nothing, logs one warning record with the
  timestamp, the sender, the intent, the message text and the computed severity, and
  returns exactly one slot update: \<^verbatim>\<open>last_violation_type\<close> is set to the value of the
  intent's \<^verbatim>\<open>name\<close> entry, and to \<^verbatim>\<open>'unknown'\<close> when the intent entry or its
  \<^verbatim>\<open>name\<close> key is missing (a name that is present with the value \<^verbatim>\<open>None\<close> is
  stored as \<^verbatim>\<open>None\<close>). Every other slot, \<^verbatim>\<open>violation_count\<close> included, keeps its
  value.
\<close>

theorem log_violation_effect:
  "ActionLogViolation_run now tr dmn
     = ([(WARNING,
          ViolationLogged
            [(''timestamp'', PStr now),
             (''user_id'', PStr (sender_id tr)),
             (''intent'', intent_name tr (PStr ''unknown'')),
             (''message'', message_text tr),
             (''violation_type'',
              PStr (categorize_violation (intent_name tr (PStr ''unknown''))))])],
        Inr [SlotSet ''last_violation_type'' (intent_name tr (PStr ''unknown''))])
   \<and> (msg_intent (latest_message tr) = None \<longrightarrow>
        intent_name tr (PStr ''unknown'') = PStr ''unknown'')
   \<and> (msg_intent (latest_message tr) = Some d \<and> d ''name'' = None \<longrightarrow>
        intent_name tr (PStr ''unknown'') = PStr ''unknown'')
   \<and> (msg_intent (latest_message tr) = Some d \<and> d ''name'' = Some v \<longrightarrow>
        intent_name tr (PStr ''unknown'') = v)
   \<and> get_slot (tracker_after tr (ActionLogViolation_run now tr dmn)) ''last_violation_type''
       = intent_name tr (PStr ''unknown'')
   \<and> (key \<noteq> ''last_violation_type'' \<longrightarrow>
        get_slot (tracker_after tr (ActionLogViolation_run now tr dmn)) key
          = get_slot tr key)"
proof -
  have run: "ActionLogViolation_run now tr dmn
     = ([(WARNING,
          ViolationLogged
            [(''timestamp'', PStr now),
             (''user_id'', PStr (sender_id tr)),
             (''intent'', intent_name tr (PStr ''unknown'')),
             (''message'', message_text tr),
             (''violation_type'',
              PStr (categorize_violation (intent_name tr (PStr ''unknown''))))])],
        Inr [SlotSet ''last_violation_type'' (intent_name tr (PStr ''unknown''))])"
    by (simp add: ActionLogViolation_run_def Let_def)
  have name: "(msg_intent (latest_message tr) = None \<longrightarrow>
        intent_name tr (PStr ''unknown'') = PStr ''unknown'')
   \<and> (msg_intent (latest_message tr) = Some d \<and> d ''name'' = None \<longrightarrow>
        intent_name tr (PStr ''unknown'') = PStr ''unknown'')
   \<and> (msg_intent (latest_message tr) = Some d \<and> d ''name'' = Some v \<longrightarrow>
        intent_name tr (PStr ''unknown'') = v)"
    by (simp add: intent_name_def)
  have slots: "get_slot (tracker_after tr (ActionLogViolation_run now tr dmn))
                 ''last_violation_type'' = intent_name tr (PStr ''unknown'')
   \<and> (key \<noteq> ''last_violation_type'' \<longrightarrow>
        get_slot (tracker_after tr (ActionLogViolation_run now tr dmn)) key
          = get_slot tr key)"
    unfolding run by (simp add: tracker_after_def apply_events_def get_slot_def)
  show ?thesis
    using run name slots by blast
qed

theorem log_violation_effect_witness:
  "snd (ActionLogViolation_run ''2024-01-01T00:00:00''
          (tracker_msg \<lparr>msg_text = None, msg_intent = None\<rparr>) domain_default)
     = Inr [SlotSet ''last_violation_type'' (PStr ''unknown'')]
   \<and> snd (ActionLogViolation_run ''2024-01-01T00:00:00''
          (tracker_msg \<lparr>msg_text = None, msg_intent = Some Map.empty\<rparr>) domain_default)
     = Inr [SlotSet ''last_violation_type'' (PStr ''unknown'')]
   \<and> snd (ActionLogViolation_run ''2024-01-01T00:00:00''
          (tracker_msg \<lparr>msg_text = None, msg_intent = Some [''name'' \<mapsto> PNone]\<rparr>)
          domain_default)
     = Inr [SlotSet ''last_violation_type'' PNone]
   \<and> ''violation_count'' \<noteq> ''last_violation_type''
   \<and> get_slot
        (tracker_after (tracker_of [''violation_count'' \<mapsto> PInt 1] ''harassment'')
           (ActionLogViolation_run ''2024-01-01T00:00:00''
              (tracker_of [''violation_count'' \<mapsto> PInt 1] ''harassment'') domain_default))
        ''violation_count'' = PInt 1"
  using log_violation_effect
          [of "''2024-01-01T00:00:00''" "tracker_msg \<lparr>msg_text = None, msg_intent = None\<rparr>"
              domain_default Map.empty PNone "''violation_count''"]
        log_violation_effect
          [of "''2024-01-01T00:00:00''"
              "tracker_msg \<lparr>msg_text = None, msg_intent = Some Map.empty\<rparr>"
              domain_default Map.empty PNone "''violation_count''"]
        log_violation_effect
          [of "''2024-01-01T00:00:00''"
              "tracker_msg \<lparr>msg_text = None, msg_intent = Some [''name'' \<mapsto> PNone]\<rparr>"
              domain_default "[''name'' \<mapsto> PNone]" PNone "''violation_count''"]
        log_violation_effect
          [of "''2024-01-01T00:00:00''"
              "tracker_of [''violation_count'' \<mapsto> PInt 1] ''harassment''" domain_default
              "[''name'' \<mapsto> PStr ''harassment'']" "PStr ''harassment''"
              "''violation_count''"]
  by (simp add: ActionLogViolation_run_def Let_def tracker_after_def apply_events_def
        intent_name_def tracker_msg_def tracker_of_def msg_of_def get_slot_def)

text \<open>
  The events returned are not empty: on a tracker without slots whose latest intent is
  harassment, \<^verbatim>\<open>last_violation_type\<close> goes from \<^verbatim>\<open>None\<close> to that intent.
\<close>

theorem log_violation_sets_slot_counterexample:
  "snd (ActionLogViolation_run ''2024-01-01T00:00:00''
          (tracker_of Map.empty ''harassment'') domain_default) \<noteq> Inr []
   \<and> get_slot (tracker_of Map.empty ''harassment'') ''last_violation_type'' = PNone
   \<and> get_slot
        (tracker_after (tracker_of Map.empty ''harassment'')
           (ActionLogViolation_run ''2024-01-01T00:00:00''
              (tracker_of Map.empty ''harassment'') domain_default))
        ''last_violation_type'' = PStr ''harassment''"
  by (simp add: ActionLogViolation_run_def Let_def tracker_after_def apply_events_def
        get_slot_def tracker_of_def intent_name_def msg_of_def)

section \<open>The counter is never negative\<close>

lemma session_start_events:
  "snd (ActionSessionStart_run tr dmn) =
     Inr (if truthy (carry_over_flag dmn) then
            [SessionStarted]
            @ (if get_slot tr ''user_name'' = PNone then []
               else [SlotSet ''user_name'' (get_slot tr ''user_name'')])
            @ (if get_slot tr ''user_segment'' = PNone then []
               else [SlotSet ''user_segment'' (get_slot tr ''user_segment'')])
            @ [ActionExecuted ''action_listen'']
          else [SessionStarted, SlotSet ''violation_count'' (PInt 0),
                SlotSet ''last_violation_type'' PNone, ActionExecuted ''action_listen''])"
  by (simp add: ActionSessionStart_run_def carry_over_flag_def Let_def)

text \<open>
  C10. When the prior \<^verbatim>\<open>violation_count\<close> is a non-negative integer \<open>c\<close>, or is
  unknown or \<^verbatim>\<open>None\<close> with \<open>c = 0\<close>, the count is the non-negative integer
  \<open>c + 1\<close> after the standard path, \<open>c + 2\<close> after the severe path, 0 after the reset
  and 0 after a session start whose carry-over flag is false. A session start whose
  carry-over flag is true returns no update of \<^verbatim>\<open>violation_count\<close> at all. Every
  update of \<^verbatim>\<open>violation_count\<close> that a session start returns is a non-negative integer.
\<close>

theorem violation_count_never_negative:
  assumes "prior_count tr c"
  shows "get_slot (tracker_after tr (ActionHandleViolation_run tr dmn)) ''violation_count''
           = PInt (c + 1)
     \<and> get_slot (tracker_after tr (ActionEscalateViolation_run now tr dmn)) ''violation_count''
           = PInt (c + 2)
     \<and> get_slot (tracker_after tr (ActionResetViolationCount_run tr dmn)) ''violation_count''
           = PInt 0
     \<and> nonneg_int (get_slot (tracker_after tr (ActionHandleViolation_run tr dmn))
                       ''violation_count'')
     \<and> nonneg_int (get_slot (tracker_after tr (ActionEscalateViolation_run now tr dmn))
                       ''violation_count'')
     \<and> nonneg_int (get_slot (tracker_after tr (ActionResetViolationCount_run tr dmn))
                       ''violation_count'')
     \<and> (\<not> truthy (carry_over_flag dmn) \<longrightarrow>
          get_slot (tracker_after tr (ActionSessionStart_run tr dmn)) ''violation_count''
            = PInt 0)
     \<and> (truthy (carry_over_flag dmn) \<longrightarrow>
          \<not> updates_slot ''violation_count'' (ActionSessionStart_run tr dmn))
     \<and> list_all count_write_ok (events_of (ActionSessionStart_run tr dmn))"
proof -
  have c0: "0 \<le> c"
    using assms by (auto simp: prior_count_def)
  have rd: "py_or (get_slot tr ''violation_count'') (PInt 0) = PInt c"
    by (rule prior_count_read [OF assms])
  have h: "get_slot (tracker_after tr (ActionHandleViolation_run tr dmn)) ''violation_count''
             = PInt (c + 1)"
    using rd
    by (simp add: ActionHandleViolation_run_def Let_def tracker_after_def get_slot_apply_events)
  have e: "get_slot (tracker_after tr (ActionEscalateViolation_run now tr dmn))
             ''violation_count'' = PInt (c + 2)"
    using rd
    by (simp add: ActionEscalateViolation_run_def Let_def tracker_after_def
          get_slot_apply_events)
  have "get_slot tr ''violation_count'' = PNone \<or> get_slot tr ''violation_count'' = PInt c"
    using assms by (auto simp: prior_count_def)
  then have r: "get_slot (tracker_after tr (ActionResetViolationCount_run tr dmn))
             ''violation_count'' = PInt 0"
    by (simp add: reset_events tracker_after_def get_slot_apply_events)
  have off: "\<not> truthy (carry_over_flag dmn) \<longrightarrow>
          get_slot (tracker_after tr (ActionSessionStart_run tr dmn)) ''violation_count''
            = PInt 0"
    by (simp add: session_start_events tracker_after_def get_slot_apply_events)
  have on: "truthy (carry_over_flag dmn) \<longrightarrow>
          \<not> updates_slot ''violation_count'' (ActionSessionStart_run tr dmn)"
    by (simp add: session_start_events updates_slot_def events_of_def)
  have w: "list_all count_write_ok (events_of (ActionSessionStart_run tr dmn))"
    by (simp add: session_start_events events_of_def)
  show ?thesis
    using h e r off on w c0 by simp
qed

theorem violation_count_never_negative_witness:
  "prior_count (tracker_of Map.empty ''harassment'') 0
   \<and> \<not> truthy (carry_over_flag (domain_carry False))
   \<and> truthy (carry_over_flag domain_default)
   \<and> get_slot
        (tracker_after (tracker_of Map.empty ''harassment'')
           (ActionHandleViolation_run (tracker_of Map.empty ''harassment'') domain_default))
        ''violation_count'' = PInt 1
   \<and> get_slot
        (tracker_after (tracker_of Map.empty ''harassment'')
           (ActionSessionStart_run (tracker_of Map.empty ''harassment'') (domain_carry False)))
        ''violation_count'' = PInt 0
   \<and> \<not> updates_slot ''violation_count''
        (ActionSessionStart_run (tracker_of Map.empty ''harassment'') domain_default)"
  using violation_count_never_negative
          [of "tracker_of Map.empty ''harassment''" 0 domain_default "''2024-01-01T00:00:00''"]
        violation_count_never_negative
          [of "tracker_of Map.empty ''harassment''" 0 "domain_carry False"
              "''2024-01-01T00:00:00''"]
  by (simp add: prior_count_def get_slot_def tracker_of_def carry_over_flag_def
        domain_carry_def domain_default_def)

text \<open>
  With carry-over (the default) and no prior count, the session start returns no slot
  update, and \<^verbatim>\<open>violation_count\<close> is \<^verbatim>\<open>None\<close> afterwards, not an integer.
\<close>

theorem session_start_keeps_absent_count_counterexample:
  "prior_count (tracker_of Map.empty ''greet'') 0
   \<and> snd (ActionSessionStart_run (tracker_of Map.empty ''greet'') domain_default)
       = Inr [SessionStarted, ActionExecuted ''action_listen'']
   \<and> get_slot
        (tracker_after (tracker_of Map.empty ''greet'')
           (ActionSessionStart_run (tracker_of Map.empty ''greet'') domain_default))
        ''violation_count'' = PNone
   \<and> \<not> nonneg_int
          (get_slot
             (tracker_after (tracker_of Map.empty ''greet'')
                (ActionSessionStart_run (tracker_of Map.empty ''greet'') domain_default))
             ''violation_count'')"
  by (simp add: ActionSessionStart_run_def Let_def tracker_after_def apply_events_def
        prior_count_def get_slot_def tracker_of_def domain_default_def)

section \<open>The severity classifier\<close>

text \<open>
  C5. The classifier is total on strings and returns one of SEVERE, MODERATE and MINOR:
  SEVERE exactly for the three labels of the severe list, MODERATE exactly for the
  three labels of the moderate list, MINOR for every other string, the empty one
  included.
\<close>

theorem categorize_violation_partition:
  "categorize_violation (PStr s) \<in> {''SEVERE'', ''MODERATE'', ''MINOR''}
   \<and> (categorize_violation (PStr s) = ''SEVERE'' \<longleftrightarrow>
        s \<in> {''prompt_injection'', ''out_of_scope_technical'', ''share_sensitive_data''})
   \<and> (categorize_violation (PStr s) = ''MODERATE'' \<longleftrightarrow>
        s \<in> {''offensive_language'', ''harassment'', ''sara_topic''})
   \<and> (categorize_violation (PStr s) = ''MINOR'' \<longleftrightarrow>
        s \<notin> {''prompt_injection'', ''out_of_scope_technical'', ''share_sensitive_data'',
              ''offensive_language'', ''harassment'', ''sara_topic''})
   \<and> categorize_violation (PStr []) = ''MINOR''"
  by (simp add: categorize_violation_def)

theorem categorize_violation_partition_witness:
  "categorize_violation (PStr ''harassment'') = ''MODERATE''
   \<and> categorize_violation (PStr ''prompt_injection'') = ''SEVERE''
   \<and> categorize_violation (PStr ''greet'') = ''MINOR''"
  using categorize_violation_partition [of "''harassment''"]
        categorize_violation_partition [of "''prompt_injection''"]
        categorize_violation_partition [of "''greet''"]
  by simp

end
